theory Spec2Isabelle
  imports Main
begin

section \<open>KubeIngressProxy: routes realised as cluster resources\<close>

text \<open>
  A shallow embedding of \<^verbatim>\<open>kubespawner/proxy.py\<close>. Strings are byte strings (the
  UTF-8 encoding of a Python \<^verbatim>\<open>str\<close>). A coroutine of the source is a function from
  the trace of events so far to a result (an exception on the left of the sum) and the
  extended trace. The cluster API, the three reflector caches and the clock behind the
  confirmation wait are outside the program: they are fields of the proxy record, each
  a function of the trace so far, so that any deterministic cluster is an instance.
  Calls to the logger have no effect on results and are left out.
\<close>

subsection \<open>Exceptions, awaitables, resources\<close>

datatype exn =
    ApiException nat
  | TypeError
  | TimeoutError string
  | KeyError string
  | JSONDecodeError
  | OtherError string

text \<open>
  What an API call evaluates to once awaited: a plain object, or something that can be
  awaited again and then raises or returns.
\<close>

datatype reply = Plain | Awaitable "exn option"

definition await :: "reply \<Rightarrow> exn + unit" where
  "await future =
     (case future of
        Plain \<Rightarrow> Inl TypeError
      | Awaitable None \<Rightarrow> Inr ()
      | Awaitable (Some e) \<Rightarrow> Inl e)"

datatype kind = Endpoints | Service | Ingress

record resource =
  res_kind :: kind
  res_name :: string
  res_labels :: "(string \<times> string) list"
  res_annotations :: "(string \<times> string) list option"

datatype request =
    Create kind string resource
  | Patch kind string string resource
  | Delete kind string string

datatype event =
    Call request "exn + reply"
  | Poll kind string bool

type_synonym trace = "event list"

type_synonym 'a action = "trace \<Rightarrow> (exn + 'a) \<times> trace"

record proxy =
  namespace :: string
  component_label :: string
  cluster_api :: "trace \<Rightarrow> request \<Rightarrow> exn + reply"
  reflector :: "trace \<Rightarrow> kind \<Rightarrow> (string \<times> resource) list"
  backoff_budget :: "trace \<Rightarrow> nat"

text \<open>
  Library functions the program calls and whose code is not part of it: the SHA-256
  digest (as a number), the builder's test whether a target is a raw IP address, and
  the JSON codec of the payload type.
\<close>

record 'd library =
  sha256 :: "string \<Rightarrow> nat"
  target_is_ip :: "string \<Rightarrow> bool"
  json_dumps :: "'d \<Rightarrow> string"
  json_loads :: "string \<Rightarrow> 'd option"

definition seq :: "'a action \<Rightarrow> ('a \<Rightarrow> 'b action) \<Rightarrow> 'b action" where
  "seq m f tr = (case m tr of (Inl e, tr') \<Rightarrow> (Inl e, tr') | (Inr x, tr') \<Rightarrow> f x tr')"

definition succeed :: "'a \<Rightarrow> 'a action" where
  "succeed x tr = (Inr x, tr)"

definition call_api :: "proxy \<Rightarrow> request \<Rightarrow> reply action" where
  "call_api self rq tr = (let r = cluster_api self tr rq in (r, tr @ [Call rq r]))"

definition create_namespaced :: "proxy \<Rightarrow> kind \<Rightarrow> string \<Rightarrow> resource \<Rightarrow> reply action" where
  "create_namespaced self k ns body = call_api self (Create k ns body)"

definition patch_namespaced ::
  "proxy \<Rightarrow> kind \<Rightarrow> string \<Rightarrow> resource \<Rightarrow> string \<Rightarrow> reply action" where
  "patch_namespaced self k ns body name = call_api self (Patch k ns name body)"

text \<open>The delete options (grace period 0) are the same in every call and not recorded.\<close>

definition delete_namespaced :: "proxy \<Rightarrow> kind \<Rightarrow> string \<Rightarrow> string \<Rightarrow> reply action" where
  "delete_namespaced self k name ns = call_api self (Delete k ns name)"

subsection \<open>Name codec\<close>

definition ascii_lowercase :: string where
  "ascii_lowercase = ''abcdefghijklmnopqrstuvwxyz''"

definition digits :: string where
  "digits = ''0123456789''"

definition hex_digit :: "string \<Rightarrow> nat \<Rightarrow> char" where
  "hex_digit alphabet n = alphabet ! (n mod 16)"

text \<open>\<^verbatim>\<open>'%X' % b\<close> for a byte: upper-case hexadecimal, no padding.\<close>

definition format_X :: "nat \<Rightarrow> string" where
  "format_X b =
     (if b < 16 then [hex_digit ''0123456789ABCDEF'' b]
      else [hex_digit ''0123456789ABCDEF'' (b div 16), hex_digit ''0123456789ABCDEF'' b])"

definition escape_one :: "char \<Rightarrow> char \<Rightarrow> string" where
  "escape_one c escape_char = escape_char # format_X (of_char c)"

text \<open>
  Modelled from the spec: \<^verbatim>\<open>escapism.escape\<close>, a library function that is not among
  the sources. Characters of the safe alphabet are kept; every byte of any other
  character becomes the escape character followed by the byte in hexadecimal. The
  escape character itself is never safe.
\<close>

definition escape :: "string \<Rightarrow> char set \<Rightarrow> char \<Rightarrow> string" where
  "escape to_escape safe escape_char =
     concat (map (\<lambda>c. if c \<in> safe - {escape_char} then [c] else escape_one c escape_char)
                 to_escape)"

text \<open>\<^verbatim>\<open>str.lower\<close> on ASCII text, which is all it is applied to here.\<close>

definition lower_char :: "char \<Rightarrow> char" where
  "lower_char c =
     (let n = (of_char c :: nat) in if 65 \<le> n \<and> n \<le> 90 then char_of (n + 32) else c)"

definition lower :: "string \<Rightarrow> string" where
  "lower s = map lower_char s"

text \<open>The last \<open>n\<close> lower-case hexadecimal digits of \<open>v\<close>, most significant first.\<close>

fun hexdigest :: "nat \<Rightarrow> nat \<Rightarrow> string" where
  "hexdigest 0 v = []"
| "hexdigest (Suc n) v = hexdigest n (v div 16) @ [hex_digit ''0123456789abcdef'' v]"

text \<open>
  Modelled from the spec: \<^verbatim>\<open>generate_hashed_slug\<close> of \<^verbatim>\<open>kubespawner/utils.py\<close>, which
  is not among the sources: the hashing/truncation step with a bounded-length result.
  A slug shorter than \<open>limit - hash_length\<close> is returned as it is; a longer one is cut
  and gets a hyphen and the first \<open>hash_length\<close> hexadecimal digits of its SHA-256
  digest, the whole in lower case.
\<close>

definition generate_hashed_slug :: "'d library \<Rightarrow> string \<Rightarrow> string" where
  "generate_hashed_slug L slug =
     (let limit = (63::nat); hash_length = (6::nat) in
      if length slug < limit - hash_length then slug
      else lower (take (limit - hash_length - 1) slug @ ''-''
                  @ take hash_length (hexdigest 64 (sha256 L slug))))"

definition safe_name_for_routespec :: "'d library \<Rightarrow> proxy \<Rightarrow> string \<Rightarrow> string" where
  "safe_name_for_routespec L self routespec =
     (let safe_chars = set (ascii_lowercase @ digits);
          safe_name = generate_hashed_slug L
            (''jupyter-'' @ escape routespec safe_chars (CHR ''-'') @ ''-route'')
      in safe_name)"

subsection \<open>Resource builder and confirmation wait\<close>

text \<open>
  Modelled from the spec: \<^verbatim>\<open>make_ingress\<close> of \<^verbatim>\<open>kubespawner/objects.py\<close>, which is
  not among the sources. It builds the three bodies from the safe name, the routespec,
  the target, the labels and the payload; there is no endpoint-mapping body when the
  target is not a raw IP address. Routespec, target and the JSON-encoded payload are
  stored under three fixed annotation keys.
\<close>

definition make_ingress ::
  "'d library \<Rightarrow> string \<Rightarrow> string \<Rightarrow> string \<Rightarrow> (string \<times> string) list \<Rightarrow> 'd
     \<Rightarrow> resource option \<times> resource \<times> resource" where
  "make_ingress L name routespec target labels data =
     (let annotations =
            [(''hub.jupyter.org/proxy-data'', json_dumps L data),
             (''hub.jupyter.org/proxy-target'', target),
             (''hub.jupyter.org/proxy-routespec'', routespec)];
          body = (\<lambda>k. \<lparr>res_kind = k, res_name = name, res_labels = labels,
                         res_annotations = Some annotations\<rparr>)
      in (if target_is_ip L target then Some (body Endpoints) else None,
          body Service, body Ingress))"

text \<open>
  Modelled from the spec: \<^verbatim>\<open>exponential_backoff\<close> of \<^verbatim>\<open>jupyterhub.utils\<close>, a
  library function that is not among the sources: it polls \<open>pass_func\<close>, returns once
  the answer is true and raises a timeout error with the given message when the
  deadline has passed. The deadline is a number of further polls, fixed by the
  environment when the wait starts.
\<close>

fun backoff_loop :: "nat \<Rightarrow> bool action \<Rightarrow> string \<Rightarrow> unit action" where
  "backoff_loop 0 pass_func fail_message tr =
     (case pass_func tr of
        (Inl e, tr') \<Rightarrow> (Inl e, tr')
      | (Inr ret, tr') \<Rightarrow>
          if ret then (Inr (), tr') else (Inl (TimeoutError fail_message), tr'))"
| "backoff_loop (Suc n) pass_func fail_message tr =
     (case pass_func tr of
        (Inl e, tr') \<Rightarrow> (Inl e, tr')
      | (Inr ret, tr') \<Rightarrow>
          if ret then (Inr (), tr') else backoff_loop n pass_func fail_message tr')"

definition exponential_backoff :: "proxy \<Rightarrow> bool action \<Rightarrow> string \<Rightarrow> unit action" where
  "exponential_backoff self pass_func fail_message tr =
     backoff_loop (backoff_budget self tr) pass_func fail_message tr"

text \<open>
  The test \<^verbatim>\<open>f'{namespace}/{safe_name}' in reflector.resources.keys()\<close>, recorded in
  the trace with its answer.
\<close>

definition in_reflector :: "proxy \<Rightarrow> kind \<Rightarrow> string \<Rightarrow> bool action" where
  "in_reflector self k safe_name tr =
     (let key = namespace self @ ''/'' @ safe_name;
          ret = (key \<in> set (map fst (reflector self tr k)))
      in (Inr ret, tr @ [Poll k key ret]))"

subsection \<open>Route reconciler and teardown\<close>

definition delete_if_exists :: "proxy \<Rightarrow> string \<Rightarrow> string \<Rightarrow> reply \<Rightarrow> unit action" where
  "delete_if_exists self kind_name safe_name future tr =
     (case await future of
        Inr _ \<Rightarrow> (Inr (), tr)
      | Inl (ApiException status) \<Rightarrow>
          if status \<noteq> 404 then (Inl (ApiException status), tr) else (Inr (), tr)
      | Inl e \<Rightarrow> (Inl e, tr))"

definition ensure_object ::
  "proxy \<Rightarrow> (string \<Rightarrow> resource \<Rightarrow> reply action)
     \<Rightarrow> (string \<Rightarrow> resource \<Rightarrow> string \<Rightarrow> reply action) \<Rightarrow> resource \<Rightarrow> string
     \<Rightarrow> unit action" where
  "ensure_object self create_func patch_func body kind_name tr =
     (case create_func (namespace self) body tr of
        (Inr resp, tr') \<Rightarrow> (Inr (), tr')
      | (Inl (ApiException status), tr') \<Rightarrow>
          if status = 409 then
            (case patch_func (namespace self) body (res_name body) tr' of
               (Inr resp, tr'') \<Rightarrow> (Inr (), tr'')
             | (Inl e, tr'') \<Rightarrow> (Inl e, tr''))
          else (Inl (ApiException status), tr')
      | (Inl e, tr') \<Rightarrow> (Inl e, tr'))"

definition add_route :: "'d library \<Rightarrow> proxy \<Rightarrow> string \<Rightarrow> string \<Rightarrow> 'd \<Rightarrow> unit action" where
  "add_route L self routespec target data =
     (let safe_name = lower (safe_name_for_routespec L self routespec);
          labels = [(''heritage'', ''jupyterhub''),
                    (''component'', component_label self),
                    (''hub.jupyter.org/proxy-route'', ''true'')];
          (endpoint, service, ingress) = make_ingress L safe_name routespec target labels data
      in
      seq (case endpoint of
             Some endpoint_body \<Rightarrow>
               seq (ensure_object self (create_namespaced self Endpoints)
                      (patch_namespaced self Endpoints) endpoint_body ''endpoints'')
                 (\<lambda>_. exponential_backoff self (in_reflector self Endpoints safe_name)
                        (''Could not find endpoints/'' @ safe_name @ '' after creating it''))
           | None \<Rightarrow>
               seq (delete_namespaced self Endpoints safe_name (namespace self))
                 (\<lambda>delete_endpoint.
                    delete_if_exists self ''endpoint'' safe_name delete_endpoint))
        (\<lambda>_. seq (ensure_object self (create_namespaced self Service)
                     (patch_namespaced self Service) service ''service'')
        (\<lambda>_. seq (exponential_backoff self (in_reflector self Service safe_name)
                     (''Could not find service/'' @ safe_name @ '' after creating it''))
        (\<lambda>_. seq (ensure_object self (create_namespaced self Ingress)
                     (patch_namespaced self Ingress) ingress ''ingress'')
        (\<lambda>_. exponential_backoff self (in_reflector self Ingress safe_name)
                 (''Could not find ingress/'' @ safe_name @ '' after creating it''))))))"

text \<open>
  \<^verbatim>\<open>asyncio.gather\<close>: every coroutine is run; the call raises the first exception in
  argument order, if there is one.
\<close>

fun gather :: "'a action list \<Rightarrow> 'a list action" where
  "gather [] tr = (Inr [], tr)"
| "gather (c # cs) tr =
     (case c tr of (r, tr1) \<Rightarrow>
        (case gather cs tr1 of (rs, tr2) \<Rightarrow>
           (case r of
              Inl e \<Rightarrow> (Inl e, tr2)
            | Inr x \<Rightarrow> (case rs of Inl e \<Rightarrow> (Inl e, tr2) | Inr xs \<Rightarrow> (Inr (x # xs), tr2)))))"

definition delete_route :: "'d library \<Rightarrow> proxy \<Rightarrow> string \<Rightarrow> unit action" where
  "delete_route L self routespec =
     (let safe_name = lower (safe_name_for_routespec L self routespec) in
      seq (delete_namespaced self Endpoints safe_name (namespace self)) (\<lambda>delete_endpoint.
      seq (delete_namespaced self Service safe_name (namespace self)) (\<lambda>delete_service.
      seq (delete_namespaced self Ingress safe_name (namespace self)) (\<lambda>delete_ingress.
      seq (gather [delete_if_exists self ''endpoint'' safe_name delete_endpoint,
                   delete_if_exists self ''service'' safe_name delete_service,
                   delete_if_exists self ''ingress'' safe_name delete_ingress])
        (\<lambda>_. succeed ())))))"

subsection \<open>Route table view\<close>

record 'd route =
  rt_routespec :: string
  rt_target :: string
  rt_data :: 'd

text \<open>\<^verbatim>\<open>ingress["metadata"]["annotations"][key]\<close>: a missing key raises.\<close>

definition annotation :: "resource \<Rightarrow> string \<Rightarrow> exn + string" where
  "annotation ingress key =
     (case res_annotations ingress of
        None \<Rightarrow> Inl (KeyError ''annotations'')
      | Some a \<Rightarrow> (case map_of a key of None \<Rightarrow> Inl (KeyError key) | Some v \<Rightarrow> Inr v))"

text \<open>One item of the dict comprehension: the key first, then the three fields in order.\<close>

definition route_item :: "'d library \<Rightarrow> resource \<Rightarrow> exn + string \<times> 'd route" where
  "route_item L ingress =
     (case annotation ingress ''hub.jupyter.org/proxy-routespec'' of
        Inl e \<Rightarrow> Inl e
      | Inr key \<Rightarrow>
     (case annotation ingress ''hub.jupyter.org/proxy-routespec'' of
        Inl e \<Rightarrow> Inl e
      | Inr r \<Rightarrow>
     (case annotation ingress ''hub.jupyter.org/proxy-target'' of
        Inl e \<Rightarrow> Inl e
      | Inr t \<Rightarrow>
     (case annotation ingress ''hub.jupyter.org/proxy-data'' of
        Inl e \<Rightarrow> Inl e
      | Inr s \<Rightarrow>
     (case json_loads L s of
        None \<Rightarrow> Inl JSONDecodeError
      | Some d \<Rightarrow> Inr (key, \<lparr>rt_routespec = r, rt_target = t, rt_data = d\<rparr>))))))"

fun collect_routes ::
  "'d library \<Rightarrow> resource list \<Rightarrow> (string \<rightharpoonup> 'd route) \<Rightarrow> exn + (string \<rightharpoonup> 'd route)" where
  "collect_routes L [] routes = Inr routes"
| "collect_routes L (ingress # rest) routes =
     (case route_item L ingress of
        Inl e \<Rightarrow> Inl e
      | Inr (key, v) \<Rightarrow> collect_routes L rest (routes(key \<mapsto> v)))"

definition get_all_routes :: "'d library \<Rightarrow> proxy \<Rightarrow> (string \<rightharpoonup> 'd route) action" where
  "get_all_routes L self tr =
     (let ingress_copy = reflector self tr Ingress
      in (collect_routes L (map snd ingress_copy) Map.empty, tr))"

subsection \<open>Notions used by the properties\<close>

definition lacks_annotation :: "resource \<Rightarrow> string \<Rightarrow> bool" where
  "lacks_annotation ingress key =
     (case res_annotations ingress of None \<Rightarrow> True | Some a \<Rightarrow> map_of a key = None)"

definition undecodable_data :: "'d library \<Rightarrow> resource \<Rightarrow> bool" where
  "undecodable_data L ingress =
     (case annotation ingress ''hub.jupyter.org/proxy-data'' of
        Inl e \<Rightarrow> False
      | Inr s \<Rightarrow> json_loads L s = None)"

definition malformed :: "'d library \<Rightarrow> resource \<Rightarrow> bool" where
  "malformed L ingress =
     (lacks_annotation ingress ''hub.jupyter.org/proxy-routespec''
      \<or> lacks_annotation ingress ''hub.jupyter.org/proxy-target''
      \<or> lacks_annotation ingress ''hub.jupyter.org/proxy-data''
      \<or> undecodable_data L ingress)"

fun key_or_decoding_error :: "exn \<Rightarrow> bool" where
  "key_or_decoding_error (KeyError k) = True"
| "key_or_decoding_error JSONDecodeError = True"
| "key_or_decoding_error _ = False"

subsection \<open>Concrete clusters\<close>

text \<open>A payload type with two values, \<^verbatim>\<open>{}\<close> and \<^verbatim>\<open>null\<close>, and its JSON texts.\<close>

datatype payload = EmptyObject | Null

definition payload_library :: "payload library" where
  "payload_library =
     \<lparr>sha256 = (\<lambda>s. length s),
      target_is_ip = (\<lambda>t. t = ''http://10.0.0.1:8000''),
      json_dumps = (\<lambda>d. case d of EmptyObject \<Rightarrow> ''{}'' | Null \<Rightarrow> ''null''),
      json_loads = (\<lambda>s. if s = ''{}'' then Some EmptyObject
                          else if s = ''null'' then Some Null else None)\<rparr>"

text \<open>A cluster in which every create is answered with Conflict.\<close>

definition conflict_cluster :: proxy where
  "conflict_cluster =
     \<lparr>namespace = ''default'',
      component_label = ''singleuser-server'',
      cluster_api = (\<lambda>tr rq. case rq of Create k ns body \<Rightarrow> Inl (ApiException 409)
                                | _ \<Rightarrow> Inr Plain),
      reflector = (\<lambda>tr k. []),
      backoff_budget = (\<lambda>tr. 3)\<rparr>"

definition web_body :: resource where
  "web_body =
     \<lparr>res_kind = Service, res_name = ''web'', res_labels = [], res_annotations = None\<rparr>"

text \<open>An ingress that carries the proxy's labels but no annotations.\<close>

definition stray_ingress :: resource where
  "stray_ingress =
     \<lparr>res_kind = Ingress, res_name = ''stray'',
      res_labels = [(''component'', ''singleuser-server''),
                    (''hub.jupyter.org/proxy-route'', ''true'')],
      res_annotations = None\<rparr>"

section \<open>Properties\<close>

subsection \<open>Create-or-replace\<close>

text \<open>
  C2. When the create call of \<open>ensure_object\<close> fails with status 409, exactly one
  patch call follows, addressed to the same namespace and to the name in the body's
  metadata, and the result of \<open>ensure_object\<close> is the result of that patch call: the
  conflict is not raised. When the create call fails with any other status, no patch
  call is made and the same exception is raised.
\<close>

theorem ensure_object_conflict:
  assumes "cluster_api self tr (Create k (namespace self) body) = Inl (ApiException status)"
  shows "ensure_object self (create_namespaced self k) (patch_namespaced self k) body kind_name tr =
    (if status = 409 then
       (let tr1 = tr @ [Call (Create k (namespace self) body) (Inl (ApiException 409))];
            r = cluster_api self tr1 (Patch k (namespace self) (res_name body) body)
        in (case r of Inl e \<Rightarrow> Inl e | Inr resp \<Rightarrow> Inr (),
            tr1 @ [Call (Patch k (namespace self) (res_name body) body) r]))
     else (Inl (ApiException status),
           tr @ [Call (Create k (namespace self) body) (Inl (ApiException status))]))"
  using assms
  by (simp add: ensure_object_def create_namespaced_def patch_namespaced_def call_api_def Let_def
           split: sum.splits)

theorem ensure_object_conflict_witness:
  "cluster_api conflict_cluster [] (Create Service (namespace conflict_cluster) web_body)
     = Inl (ApiException 409) \<and>
   ensure_object conflict_cluster (create_namespaced conflict_cluster Service)
       (patch_namespaced conflict_cluster Service) web_body ''service'' [] =
     (Inr (),
      [Call (Create Service ''default'' web_body) (Inl (ApiException 409)),
       Call (Patch Service ''default'' ''web'' web_body) (Inr Plain)])"
proof -
  have h: "cluster_api conflict_cluster [] (Create Service (namespace conflict_cluster) web_body)
     = Inl (ApiException 409)"
    by (simp add: conflict_cluster_def)
  show ?thesis
    using h ensure_object_conflict [OF h, of "''service''"]
    by (simp add: conflict_cluster_def web_body_def)
qed

subsection \<open>Route table view\<close>

lemma annotation_error: "annotation x k = Inl e \<Longrightarrow> key_or_decoding_error e"
  by (auto simp: annotation_def split: option.splits)

lemma annotation_lacks: "lacks_annotation x k \<Longrightarrow> \<exists>e. annotation x k = Inl e"
  by (auto simp: annotation_def lacks_annotation_def split: option.splits)

lemma route_item_error: "route_item L x = Inl e \<Longrightarrow> key_or_decoding_error e"
  by (auto simp: route_item_def split: sum.splits option.splits dest: annotation_error)

lemma route_item_malformed: "malformed L x \<Longrightarrow> \<exists>e. route_item L x = Inl e"
  unfolding malformed_def undecodable_data_def
  by (auto simp: route_item_def split: sum.splits option.splits dest!: annotation_lacks)

lemma collect_routes_error: "collect_routes L xs m = Inl e \<Longrightarrow> key_or_decoding_error e"
  by (induction xs arbitrary: m) (auto split: sum.splits dest: route_item_error)

lemma collect_routes_malformed:
  "x \<in> set xs \<Longrightarrow> malformed L x \<Longrightarrow> \<exists>e. collect_routes L xs m = Inl e"
proof (induction xs arbitrary: m)
  case Nil
  then show ?case by simp
next
  case (Cons y ys)
  show ?case
  proof (cases "route_item L y")
    case (Inl e)
    then show ?thesis by simp
  next
    case (Inr kv)
    with Cons.prems route_item_malformed [of L y] have "x \<in> set ys" by auto
    from Cons.IH [OF this Cons.prems(2)] Inr show ?thesis
      by (cases kv) simp
  qed
qed

text \<open>
  C10. If one ingress of the snapshot of the ingress cache lacks one of the three
  annotations, or its data annotation does not decode, \<open>get_all_routes\<close> raises a key
  error or a decoding error: it returns no routes, not even those of the other
  ingresses.
\<close>

theorem get_all_routes_malformed:
  assumes "(key, ingress) \<in> set (reflector self tr Ingress)"
    and "malformed L ingress"
  shows "\<exists>e. get_all_routes L self tr = (Inl e, tr) \<and> key_or_decoding_error e"
proof -
  from assms(1) have "ingress \<in> set (map snd (reflector self tr Ingress))" by force
  from collect_routes_malformed [OF this assms(2)]
  obtain e where e: "collect_routes L (map snd (reflector self tr Ingress)) Map.empty = Inl e"
    by blast
  with collect_routes_error [OF e] show ?thesis
    by (simp add: get_all_routes_def)
qed

end
